theory Spec2Isabelle
  imports Main
begin

section \<open>init.c: the initialisation counter\<close>

text \<open>
  The file keeps two static variables, \<^verbatim>\<open>_ssh_initialized\<close> (the counter) and
  \<^verbatim>\<open>_ssh_init_ret\<close> (the cached result of the bring-up), guarded by the static
  mutex \<^verbatim>\<open>ssh_init_mutex\<close>. An Isabelle name cannot start with an underscore, so the
  leading underscore of the source is written \<open>u_\<close>.

  The functions \<^verbatim>\<open>ssh_threads_init\<close>, \<^verbatim>\<open>ssh_crypto_init\<close>, \<^verbatim>\<open>ssh_socket_init\<close>,
  \<^verbatim>\<open>ssh_crypto_finalize\<close>, \<^verbatim>\<open>ssh_socket_cleanup\<close> and \<^verbatim>\<open>ssh_threads_finalize\<close> are
  defined in other files. A call of one of them is recorded as an event, in the order the
  calls happen, and the status each initialiser returns is a parameter of the model.
  The build modelled is the one with \<^verbatim>\<open>HAVE_PTHREAD\<close>, where the macros
  \<^verbatim>\<open>SSH_STATIC_MUTEX_LOCK\<close> and \<^verbatim>\<open>SSH_STATIC_MUTEX_UNLOCK\<close> expand to calls on the
  static mutex (their results are ignored by the source); they are events too.
  A status is a C \<^verbatim>\<open>int\<close> that the source only compares with 0, so it is an \<open>int\<close>
  here. The load hooks \<^verbatim>\<open>auto_init\<close> and \<^verbatim>\<open>auto_finalize\<close> call \<^verbatim>\<open>_ssh_init(1)\<close>
  and \<^verbatim>\<open>_ssh_finalize(1)\<close>: they are the calls with the flag set.
\<close>

datatype event =
    Lock_ssh_init_mutex
  | Unlock_ssh_init_mutex
  | Ssh_threads_init
  | Ssh_crypto_init
  | Ssh_socket_init
  | Ssh_crypto_finalize
  | Ssh_socket_cleanup
  | Ssh_threads_finalize

text \<open>The status returned by each of the three initialisers when it is called.\<close>

record collaborators =
  ssh_threads_init :: int
  ssh_crypto_init :: int
  ssh_socket_init :: int

record lifecycle =
  u_ssh_initialized :: int
  u_ssh_init_ret :: int
  calls :: "event list"

text \<open>
  \<^verbatim>\<open>_ssh_initialized\<close> is a C \<^verbatim>\<open>int\<close>. The only arithmetic on it is \<^verbatim>\<open>++\<close> and
  \<^verbatim>\<open>--\<close>; incrementing \<^verbatim>\<open>INT_MAX\<close> is undefined behaviour in C, which the model
  reports as the fault \<open>Signed_overflow\<close> instead of inventing a value.
\<close>

definition INT_MAX :: int where
  "INT_MAX = 2147483647"

datatype fault = Signed_overflow

definition called :: "event \<Rightarrow> lifecycle \<Rightarrow> lifecycle" where
  "called e s = s\<lparr>calls := calls s @ [e]\<rparr>"

definition SSH_STATIC_MUTEX_LOCK :: "lifecycle \<Rightarrow> lifecycle" where
  "SSH_STATIC_MUTEX_LOCK s = called Lock_ssh_init_mutex s"

definition SSH_STATIC_MUTEX_UNLOCK :: "lifecycle \<Rightarrow> lifecycle" where
  "SSH_STATIC_MUTEX_UNLOCK s = called Unlock_ssh_init_mutex s"

text \<open>
  \<^verbatim>\<open>static int _ssh_init(unsigned constructor)\<close>. The flag is only tested by
  \<^verbatim>\<open>!constructor\<close>, so it is a boolean here. The result is the returned status and the
  state after the call.
\<close>

definition u_ssh_init ::
  "collaborators \<Rightarrow> bool \<Rightarrow> lifecycle \<Rightarrow> fault + (int \<times> lifecycle)" where
  "u_ssh_init env constructor s0 =
    (let s1 = (if \<not> constructor then SSH_STATIC_MUTEX_LOCK s0 else s0) in
     if u_ssh_initialized s1 = INT_MAX then Inl Signed_overflow
     else
       let s2 = s1\<lparr>u_ssh_initialized := u_ssh_initialized s1 + 1\<rparr>;
           (rc, s3) =
             (if u_ssh_initialized s2 > 1 then (u_ssh_init_ret s2, s2)
              else
                let t = called Ssh_threads_init s2; rc = ssh_threads_init env in
                if rc \<noteq> 0 then (rc, t)
                else
                  let t = called Ssh_crypto_init t; rc = ssh_crypto_init env in
                  if rc \<noteq> 0 then (rc, t)
                  else
                    let t = called Ssh_socket_init t; rc = ssh_socket_init env in
                    (rc, t));
           s4 = s3\<lparr>u_ssh_init_ret := rc\<rparr>;
           s5 = (if \<not> constructor then SSH_STATIC_MUTEX_UNLOCK s4 else s4)
       in Inr (rc, s5))"

text \<open>\<^verbatim>\<open>int ssh_init(void)\<close> is \<^verbatim>\<open>_ssh_init(0)\<close>.\<close>

definition ssh_init :: "collaborators \<Rightarrow> lifecycle \<Rightarrow> fault + (int \<times> lifecycle)" where
  "ssh_init env s = u_ssh_init env False s"

text \<open>
  \<^verbatim>\<open>static int _ssh_finalize(unsigned destructor)\<close>. The counter is only decremented
  when it is positive, so no overflow can happen and the function always returns.
\<close>

definition u_ssh_finalize :: "bool \<Rightarrow> lifecycle \<Rightarrow> int \<times> lifecycle" where
  "u_ssh_finalize destructor s0 =
    (let s1 = (if \<not> destructor then SSH_STATIC_MUTEX_LOCK s0 else s0);
         s2 =
           (if u_ssh_initialized s1 = 1 then
              let t = s1\<lparr>u_ssh_initialized := 0\<rparr> in
              if u_ssh_init_ret t < 0 then t
              else
                let t = called Ssh_crypto_finalize t;
                    t = called Ssh_socket_cleanup t;
                    t = called Ssh_threads_finalize t
                in t
            else if u_ssh_initialized s1 > 0 then
              s1\<lparr>u_ssh_initialized := u_ssh_initialized s1 - 1\<rparr>
            else s1);
         s3 = (if \<not> destructor then SSH_STATIC_MUTEX_UNLOCK s2 else s2)
     in (0, s3))"

text \<open>\<^verbatim>\<open>int ssh_finalize(void)\<close> is \<^verbatim>\<open>_ssh_finalize(0)\<close>.\<close>

definition ssh_finalize :: "lifecycle \<Rightarrow> int \<times> lifecycle" where
  "ssh_finalize s = u_ssh_finalize False s"

subsection \<open>Sequences of calls\<close>

text \<open>
  A caller's program is a list of calls of the two functions, each with its flag (and, for
  an initialisation, the statuses the initialisers would return). \<open>run\<close> performs them in
  order, and returns the statuses returned and the final state; it stops at a fault.
\<close>

datatype step = Init bool collaborators | Finalize bool

fun run :: "step list \<Rightarrow> lifecycle \<Rightarrow> fault + (int list \<times> lifecycle)" where
  "run [] s = Inr ([], s)"
| "run (Init c env # rest) s =
     (case u_ssh_init env c s of
        Inl f \<Rightarrow> Inl f
      | Inr (rc, s') \<Rightarrow>
          (case run rest s' of
             Inl f \<Rightarrow> Inl f
           | Inr (rcs, s'') \<Rightarrow> Inr (rc # rcs, s'')))"
| "run (Finalize d # rest) s =
     (case u_ssh_finalize d s of
        (rc, s') \<Rightarrow>
          (case run rest s' of
             Inl f \<Rightarrow> Inl f
           | Inr (rcs, s'') \<Rightarrow> Inr (rc # rcs, s'')))"

text \<open>The calls of the six collaborators among a list of events.\<close>

definition is_collaborator :: "event \<Rightarrow> bool" where
  "is_collaborator e = (e \<noteq> Lock_ssh_init_mutex \<and> e \<noteq> Unlock_ssh_init_mutex)"

definition collaborator_calls :: "event list \<Rightarrow> event list" where
  "collaborator_calls es = filter is_collaborator es"

text \<open>The events of the static mutex around the body of a call with the given flag.\<close>

definition locking :: "bool \<Rightarrow> event list \<Rightarrow> event list" where
  "locking flag es =
     (if \<not> flag then [Lock_ssh_init_mutex] @ es @ [Unlock_ssh_init_mutex] else es)"

text \<open>The state of a process before any call: both static variables are 0.\<close>

definition initial :: lifecycle where
  "initial = \<lparr>u_ssh_initialized = 0, u_ssh_init_ret = 0, calls = []\<rparr>"

text \<open>The status the bring-up yields, and the initialisers it calls.\<close>

definition bring_up_status :: "collaborators \<Rightarrow> int" where
  "bring_up_status env =
     (if ssh_threads_init env \<noteq> 0 then ssh_threads_init env
      else if ssh_crypto_init env \<noteq> 0 then ssh_crypto_init env
      else ssh_socket_init env)"

definition bring_up_calls :: "collaborators \<Rightarrow> event list" where
  "bring_up_calls env =
     (if ssh_threads_init env \<noteq> 0 then [Ssh_threads_init]
      else if ssh_crypto_init env \<noteq> 0 then [Ssh_threads_init, Ssh_crypto_init]
      else [Ssh_threads_init, Ssh_crypto_init, Ssh_socket_init])"

text \<open>
  An epoch is the span in which the counter is not 0. \<open>stays_active steps n\<close> says that
  the calls \<open>steps\<close>, started with the counter at \<open>n\<close>, stay inside the epoch: no
  \<^verbatim>\<open>_ssh_finalize\<close> finds the counter at 1 (which would end the epoch) and no
  \<^verbatim>\<open>_ssh_init\<close> finds it at \<^verbatim>\<open>INT_MAX\<close>. \<open>epoch_status rc\<close> is the status expected of
  a call inside an epoch whose cached result is \<open>rc\<close>.
\<close>

fun stays_active :: "step list \<Rightarrow> int \<Rightarrow> bool" where
  "stays_active [] n = True"
| "stays_active (Init c env # rest) n = (n < INT_MAX \<and> stays_active rest (n + 1))"
| "stays_active (Finalize d # rest) n = (1 < n \<and> stays_active rest (n - 1))"

definition epoch_status :: "int \<Rightarrow> step \<Rightarrow> int" where
  "epoch_status rc st = (case st of Init c env \<Rightarrow> rc | Finalize d \<Rightarrow> 0)"

section \<open>threads/pthread.c: the pthread backend and the mutex interface\<close>

text \<open>
  The functions of this file work on memory through pointers, and two of the claims are
  about which memory a call reaches, so the memory is explicit. An address is a number,
  \<^verbatim>\<open>NULL\<close> is 0. A handle is a \<^verbatim>\<open>void **\<close>: the address of a cell that holds a
  \<^verbatim>\<open>void *\<close>. \<open>cells\<close> gives the pointer stored in each cell, \<open>allocated\<close> the blocks
  that \<^verbatim>\<open>malloc\<close> returned and \<^verbatim>\<open>free\<close> has not released.

  The C library is not part of the repository. Each call of it is recorded, with the
  address it is given, in \<open>libc_calls\<close>; what it returns is a parameter (a record of type
  \<open>libc\<close>). \<^verbatim>\<open>exit\<close> ends the process: a function of the model yields \<open>Exit code\<close>
  when the process ended inside it and \<open>Return v\<close> when it returned \<open>v\<close> to its caller.
  The values of \<^verbatim>\<open>EINVAL\<close> and \<^verbatim>\<open>ENOMEM\<close> are those of \<^verbatim>\<open>errno.h\<close> on Linux.
\<close>

type_synonym addr = nat

definition NULL :: addr where
  "NULL = 0"

definition EINVAL :: int where
  "EINVAL = 22"

definition ENOMEM :: int where
  "ENOMEM = 12"

datatype libc_call =
    Pthread_mutexattr_init
  | Pthread_mutexattr_settype
  | Malloc addr
  | Free addr
  | Pthread_mutex_init addr
  | Pthread_mutex_destroy addr
  | Pthread_mutex_lock addr
  | Pthread_mutex_unlock addr

record libc =
  pthread_mutexattr_init :: int
  pthread_mutexattr_settype :: int
  malloc :: addr
  pthread_mutex_init :: "addr \<Rightarrow> int"
  pthread_mutex_destroy :: "addr \<Rightarrow> int"
  pthread_mutex_lock :: "addr \<Rightarrow> int"
  pthread_mutex_unlock :: "addr \<Rightarrow> int"

record memory =
  cells :: "addr \<Rightarrow> addr"
  allocated :: "addr set"
  libc_calls :: "libc_call list"

datatype 'a outcome = Exit int | Return 'a

definition did :: "libc_call \<Rightarrow> memory \<Rightarrow> memory" where
  "did c m = m\<lparr>libc_calls := libc_calls m @ [c]\<rparr>"

text \<open>\<^verbatim>\<open>*a\<close> and \<^verbatim>\<open>*a = v\<close> for a cell at address \<open>a\<close>.\<close>

definition load :: "addr \<Rightarrow> memory \<Rightarrow> addr" where
  "load a m = cells m a"

definition store :: "addr \<Rightarrow> addr \<Rightarrow> memory \<Rightarrow> memory" where
  "store a v m = m\<lparr>cells := (cells m)(a := v)\<rparr>"

text \<open>\<^verbatim>\<open>malloc(sizeof(pthread_mutex_t))\<close> returns \<^verbatim>\<open>NULL\<close> or a block; \<^verbatim>\<open>free(p)\<close>.\<close>

definition call_malloc :: "libc \<Rightarrow> memory \<Rightarrow> addr \<times> memory" where
  "call_malloc env m =
     (malloc env,
      did (Malloc (malloc env))
        (if malloc env = NULL then m
         else m\<lparr>allocated := insert (malloc env) (allocated m)\<rparr>))"

definition call_free :: "addr \<Rightarrow> memory \<Rightarrow> memory" where
  "call_free p m = did (Free p) (m\<lparr>allocated := allocated m - {p}\<rparr>)"

text \<open>\<^verbatim>\<open>static int ssh_pthread_mutex_init (void **mutex)\<close>\<close>

definition ssh_pthread_mutex_init :: "libc \<Rightarrow> addr \<Rightarrow> memory \<Rightarrow> int outcome \<times> memory" where
  "ssh_pthread_mutex_init env mutex m0 =
    (let m1 = did Pthread_mutexattr_init m0; rc = pthread_mutexattr_init env in
     if rc \<noteq> 0 then (Exit rc, m1)
     else
       let m2 = did Pthread_mutexattr_settype m1; rc = pthread_mutexattr_settype env in
       if rc \<noteq> 0 then (Exit rc, m2)
       else
         let (p, m3) = call_malloc env m2;
             m4 = store mutex p m3
         in
         if load mutex m4 = NULL then (Return ENOMEM, m4)
         else
           let m5 = did (Pthread_mutex_init (load mutex m4)) m4;
               rc = pthread_mutex_init env (load mutex m4)
           in
           if rc \<noteq> 0 then
             let m6 = call_free (load mutex m5) m5;
                 m7 = store mutex NULL m6
             in (Return rc, m7)
           else (Return rc, m5))"

text \<open>\<^verbatim>\<open>static int ssh_pthread_mutex_destroy (void **mutex)\<close>\<close>

definition ssh_pthread_mutex_destroy :: "libc \<Rightarrow> addr \<Rightarrow> memory \<Rightarrow> int \<times> memory" where
  "ssh_pthread_mutex_destroy env mutex m0 =
    (let m1 = did (Pthread_mutex_destroy (load mutex m0)) m0;
         rc = pthread_mutex_destroy env (load mutex m0);
         m2 = call_free (load mutex m1) m1;
         m3 = store mutex NULL m2
     in (rc, m3))"

text \<open>
  \<^verbatim>\<open>static int ssh_pthread_mutex_lock (void **mutex)\<close> and
  \<^verbatim>\<open>static int ssh_pthread_mutex_unlock (void **mutex)\<close>: the pthread call is applied to
  \<^verbatim>\<open>*mutex\<close>, the pointer read from the cell.
\<close>

definition ssh_pthread_mutex_lock :: "libc \<Rightarrow> addr \<Rightarrow> memory \<Rightarrow> int \<times> memory" where
  "ssh_pthread_mutex_lock env mutex m =
     (pthread_mutex_lock env (load mutex m), did (Pthread_mutex_lock (load mutex m)) m)"

definition ssh_pthread_mutex_unlock :: "libc \<Rightarrow> addr \<Rightarrow> memory \<Rightarrow> int \<times> memory" where
  "ssh_pthread_mutex_unlock env mutex m =
     (pthread_mutex_unlock env (load mutex m), did (Pthread_mutex_unlock (load mutex m)) m)"

text \<open>
  \<^verbatim>\<open>void ssh_static_mutex_init(void **mutex)\<close>: the mutex is constructed at the address
  \<^verbatim>\<open>mutex\<close> itself (the source's comment: a pointer to the static structure is expected).
\<close>

definition ssh_static_mutex_init :: "libc \<Rightarrow> addr \<Rightarrow> memory \<Rightarrow> unit outcome \<times> memory" where
  "ssh_static_mutex_init env mutex m0 =
    (if mutex = NULL then (Exit EINVAL, m0)
     else
       let m1 = did Pthread_mutexattr_init m0; rc = pthread_mutexattr_init env in
       if rc \<noteq> 0 then (Exit rc, m1)
       else
         let m2 = did Pthread_mutexattr_settype m1; rc = pthread_mutexattr_settype env in
         if rc \<noteq> 0 then (Exit rc, m2)
         else
           let m3 = did (Pthread_mutex_init mutex) m2; rc = pthread_mutex_init env mutex in
           if rc \<noteq> 0 then (Exit rc, m3) else (Return (), m3))"

text \<open>\<^verbatim>\<open>void ssh_mutex_init(void **mutex)\<close>\<close>

definition ssh_mutex_init :: "libc \<Rightarrow> addr \<Rightarrow> memory \<Rightarrow> unit outcome \<times> memory" where
  "ssh_mutex_init env mutex m0 =
    (if mutex = NULL then (Exit EINVAL, m0)
     else
       case ssh_pthread_mutex_init env mutex m0 of
         (Exit code, m1) \<Rightarrow> (Exit code, m1)
       | (Return rc, m1) \<Rightarrow> if rc \<noteq> 0 then (Exit rc, m1) else (Return (), m1))"

text \<open>
  \<^verbatim>\<open>void ssh_mutex_lock(void **mutex)\<close> and \<^verbatim>\<open>void ssh_mutex_unlock(void **mutex)\<close>.
  The source passes \<^verbatim>\<open>(void **)&mutex\<close>, the address of its own parameter, to the
  backend. The parameter is therefore a variable in memory: \<open>param\<close> is its address, and
  on entry it holds the argument \<open>mutex\<close>.
\<close>

definition ssh_mutex_lock :: "libc \<Rightarrow> addr \<Rightarrow> addr \<Rightarrow> memory \<Rightarrow> unit outcome \<times> memory" where
  "ssh_mutex_lock env param mutex m0 =
    (let m1 = store param mutex m0 in
     if load param m1 = NULL then (Exit EINVAL, m1)
     else
       let (rc, m2) = ssh_pthread_mutex_lock env param m1 in
       if rc \<noteq> 0 then (Exit rc, m2) else (Return (), m2))"

definition ssh_mutex_unlock :: "libc \<Rightarrow> addr \<Rightarrow> addr \<Rightarrow> memory \<Rightarrow> unit outcome \<times> memory" where
  "ssh_mutex_unlock env param mutex m0 =
    (let m1 = store param mutex m0 in
     if load param m1 = NULL then (Exit EINVAL, m1)
     else
       let (rc, m2) = ssh_pthread_mutex_unlock env param m1 in
       if rc \<noteq> 0 then (Exit rc, m2) else (Return (), m2))"

text \<open>\<^verbatim>\<open>void ssh_mutex_destroy(void **mutex)\<close>\<close>

definition ssh_mutex_destroy :: "libc \<Rightarrow> addr \<Rightarrow> memory \<Rightarrow> unit outcome \<times> memory" where
  "ssh_mutex_destroy env mutex m0 =
    (if mutex = NULL then (Exit EINVAL, m0)
     else
       let (rc, m1) = ssh_pthread_mutex_destroy env mutex m0 in
       if rc \<noteq> 0 then (Exit rc, m1) else (Return (), m1))"

text \<open>A memory with nothing allocated and no call made, and a C library where every call
  succeeds and \<^verbatim>\<open>malloc\<close> returns the block at 200.\<close>

definition empty_memory :: memory where
  "empty_memory = \<lparr>cells = (\<lambda>a. NULL), allocated = {}, libc_calls = []\<rparr>"

definition libc_ok :: libc where
  "libc_ok =
     \<lparr>pthread_mutexattr_init = 0, pthread_mutexattr_settype = 0, malloc = 200,
      pthread_mutex_init = (\<lambda>a. 0), pthread_mutex_destroy = (\<lambda>a. 0),
      pthread_mutex_lock = (\<lambda>a. 0), pthread_mutex_unlock = (\<lambda>a. 0)\<rparr>"

section \<open>Properties of the initialisation counter\<close>

lemmas counter_defs =
  u_ssh_init_def u_ssh_finalize_def Let_def called_def SSH_STATIC_MUTEX_LOCK_def
  SSH_STATIC_MUTEX_UNLOCK_def INT_MAX_def

lemma u_ssh_init_first:
  assumes "u_ssh_initialized s = 0"
  shows "u_ssh_init env c s =
    Inr (bring_up_status env,
         s\<lparr>u_ssh_initialized := 1, u_ssh_init_ret := bring_up_status env,
           calls := calls s @ locking c (bring_up_calls env)\<rparr>)"
  using assms
  by (simp add: u_ssh_init_def Let_def called_def SSH_STATIC_MUTEX_LOCK_def
      SSH_STATIC_MUTEX_UNLOCK_def INT_MAX_def locking_def bring_up_status_def
      bring_up_calls_def)

lemma u_ssh_init_active:
  assumes "1 \<le> u_ssh_initialized s" and "u_ssh_initialized s < INT_MAX"
  shows "u_ssh_init env c s =
    Inr (u_ssh_init_ret s,
         s\<lparr>u_ssh_initialized := u_ssh_initialized s + 1,
           calls := calls s @ locking c []\<rparr>)"
  using assms
  by (simp add: u_ssh_init_def Let_def called_def SSH_STATIC_MUTEX_LOCK_def
      SSH_STATIC_MUTEX_UNLOCK_def locking_def)

lemma u_ssh_finalize_last_clean:
  assumes "u_ssh_initialized s = 1" and "\<not> u_ssh_init_ret s < 0"
  shows "u_ssh_finalize d s =
    (0, s\<lparr>u_ssh_initialized := 0,
           calls := calls s @
             locking d [Ssh_crypto_finalize, Ssh_socket_cleanup, Ssh_threads_finalize]\<rparr>)"
  using assms
  by (simp add: u_ssh_finalize_def Let_def called_def SSH_STATIC_MUTEX_LOCK_def
      SSH_STATIC_MUTEX_UNLOCK_def locking_def)

lemma u_ssh_finalize_last_failed:
  assumes "u_ssh_initialized s = 1" and "u_ssh_init_ret s < 0"
  shows "u_ssh_finalize d s =
    (0, s\<lparr>u_ssh_initialized := 0, calls := calls s @ locking d []\<rparr>)"
  using assms
  by (simp add: u_ssh_finalize_def Let_def called_def SSH_STATIC_MUTEX_LOCK_def
      SSH_STATIC_MUTEX_UNLOCK_def locking_def)

lemma u_ssh_finalize_nested:
  assumes "1 < u_ssh_initialized s"
  shows "u_ssh_finalize d s =
    (0, s\<lparr>u_ssh_initialized := u_ssh_initialized s - 1,
           calls := calls s @ locking d []\<rparr>)"
  using assms
  by (simp add: u_ssh_finalize_def Let_def called_def SSH_STATIC_MUTEX_LOCK_def
      SSH_STATIC_MUTEX_UNLOCK_def locking_def)

lemma u_ssh_finalize_idle:
  assumes "u_ssh_initialized s \<le> 0"
  shows "u_ssh_finalize d s = (0, s\<lparr>calls := calls s @ locking d []\<rparr>)"
  using assms
  by (simp add: u_ssh_finalize_def Let_def called_def SSH_STATIC_MUTEX_LOCK_def
      SSH_STATIC_MUTEX_UNLOCK_def locking_def)

lemma fst_u_ssh_finalize: "fst (u_ssh_finalize d s) = 0"
  by (simp add: u_ssh_finalize_def Let_def)

lemma collaborator_calls_locking:
  "collaborator_calls (locking flag es) = collaborator_calls es"
  by (simp add: collaborator_calls_def locking_def is_collaborator_def)

lemma collaborator_calls_append:
  "collaborator_calls (xs @ ys) = collaborator_calls xs @ collaborator_calls ys"
  by (simp add: collaborator_calls_def)

subsection \<open>Sequences of calls\<close>

lemma run_append:
  "run (xs @ ys) s =
     (case run xs s of
        Inl f \<Rightarrow> Inl f
      | Inr (rcs, s') \<Rightarrow>
          (case run ys s' of
             Inl f \<Rightarrow> Inl f
           | Inr (rcs', s'') \<Rightarrow> Inr (rcs @ rcs', s'')))"
proof (induction xs arbitrary: s)
  case Nil
  show ?case by (simp split: sum.splits)
next
  case (Cons x xs)
  show ?case
    by (cases x) (auto simp: Cons.IH split: sum.splits prod.splits)
qed

lemma run_inits_active:
  assumes "1 \<le> u_ssh_initialized s"
    and "u_ssh_initialized s + int (length xs) \<le> INT_MAX"
  shows "\<exists>s'. run (map (\<lambda>x. Init (fst x) (snd x)) xs) s =
                 Inr (replicate (length xs) (u_ssh_init_ret s), s')
             \<and> u_ssh_initialized s' = u_ssh_initialized s + int (length xs)
             \<and> u_ssh_init_ret s' = u_ssh_init_ret s
             \<and> (\<exists>es. calls s' = calls s @ es \<and> collaborator_calls es = [])"
  using assms
proof (induction xs arbitrary: s)
  case Nil
  then show ?case by (simp add: collaborator_calls_def)
next
  case (Cons x xs)
  let ?t = "s\<lparr>u_ssh_initialized := u_ssh_initialized s + 1,
                calls := calls s @ locking (fst x) []\<rparr>"
  have step: "u_ssh_init (snd x) (fst x) s = Inr (u_ssh_init_ret s, ?t)"
    using Cons.prems by (intro u_ssh_init_active) simp_all
  have "1 \<le> u_ssh_initialized ?t"
    and "u_ssh_initialized ?t + int (length xs) \<le> INT_MAX"
    using Cons.prems by simp_all
  from Cons.IH [OF this] obtain s' es where
    r: "run (map (\<lambda>x. Init (fst x) (snd x)) xs) ?t =
          Inr (replicate (length xs) (u_ssh_init_ret ?t), s')"
    and c: "u_ssh_initialized s' = u_ssh_initialized ?t + int (length xs)"
    and k: "u_ssh_init_ret s' = u_ssh_init_ret ?t"
    and e: "calls s' = calls ?t @ es" "collaborator_calls es = []"
    by blast
  have "calls s' = calls s @ (locking (fst x) [] @ es)"
    using e by simp
  moreover have "collaborator_calls (locking (fst x) [] @ es) = []"
    using e by (simp add: collaborator_calls_append collaborator_calls_locking)
       (simp add: collaborator_calls_def)
  ultimately show ?case
    using step r c k by auto
qed

lemma run_finalizes_nested:
  assumes "int (length ds) < u_ssh_initialized s"
  shows "\<exists>s'. run (map Finalize ds) s = Inr (replicate (length ds) 0, s')
             \<and> u_ssh_initialized s' = u_ssh_initialized s - int (length ds)
             \<and> u_ssh_init_ret s' = u_ssh_init_ret s
             \<and> (\<exists>es. calls s' = calls s @ es \<and> collaborator_calls es = [])"
  using assms
proof (induction ds arbitrary: s)
  case Nil
  then show ?case by (simp add: collaborator_calls_def)
next
  case (Cons d ds)
  let ?t = "s\<lparr>u_ssh_initialized := u_ssh_initialized s - 1,
                calls := calls s @ locking d []\<rparr>"
  have step: "u_ssh_finalize d s = (0, ?t)"
    using Cons.prems by (intro u_ssh_finalize_nested) simp
  have "int (length ds) < u_ssh_initialized ?t"
    using Cons.prems by simp
  from Cons.IH [OF this] obtain s' es where
    r: "run (map Finalize ds) ?t = Inr (replicate (length ds) 0, s')"
    and c: "u_ssh_initialized s' = u_ssh_initialized ?t - int (length ds)"
    and k: "u_ssh_init_ret s' = u_ssh_init_ret ?t"
    and e: "calls s' = calls ?t @ es" "collaborator_calls es = []"
    by blast
  have "calls s' = calls s @ (locking d [] @ es)"
    using e by simp
  moreover have "collaborator_calls (locking d [] @ es) = []"
    using e by (simp add: collaborator_calls_append collaborator_calls_locking)
       (simp add: collaborator_calls_def)
  ultimately show ?case
    using step r c k by auto
qed


lemma run_stays_active:
  assumes "1 \<le> u_ssh_initialized s" and "stays_active steps (u_ssh_initialized s)"
  shows "\<exists>s'. run steps s = Inr (map (epoch_status (u_ssh_init_ret s)) steps, s')
             \<and> 1 \<le> u_ssh_initialized s'
             \<and> u_ssh_init_ret s' = u_ssh_init_ret s
             \<and> (\<exists>es. calls s' = calls s @ es \<and> collaborator_calls es = [])"
  using assms
proof (induction steps arbitrary: s)
  case Nil
  then show ?case by (simp add: collaborator_calls_def)
next
  case (Cons x steps)
  show ?case
  proof (cases x)
    case (Init c env)
    let ?t = "s\<lparr>u_ssh_initialized := u_ssh_initialized s + 1,
                  calls := calls s @ locking c []\<rparr>"
    have room: "u_ssh_initialized s < INT_MAX"
      and rest: "stays_active steps (u_ssh_initialized ?t)"
      using Cons.prems Init by simp_all
    have step: "u_ssh_init env c s = Inr (u_ssh_init_ret s, ?t)"
      using Cons.prems(1) room by (rule u_ssh_init_active)
    have "1 \<le> u_ssh_initialized ?t"
      using Cons.prems(1) by simp
    from Cons.IH [OF this rest] obtain s' es where
      r: "run steps ?t = Inr (map (epoch_status (u_ssh_init_ret ?t)) steps, s')"
      and c: "1 \<le> u_ssh_initialized s'"
      and k: "u_ssh_init_ret s' = u_ssh_init_ret ?t"
      and e: "calls s' = calls ?t @ es" "collaborator_calls es = []"
      by blast
    have "calls s' = calls s @ (locking c [] @ es)"
      using e by simp
    moreover have "collaborator_calls (locking c [] @ es) = []"
      using e by (simp add: collaborator_calls_append collaborator_calls_locking)
        (simp add: collaborator_calls_def)
    ultimately show ?thesis
      using step r c k Init by (auto simp: epoch_status_def)
  next
    case (Finalize d)
    let ?t = "s\<lparr>u_ssh_initialized := u_ssh_initialized s - 1,
                  calls := calls s @ locking d []\<rparr>"
    have nested: "1 < u_ssh_initialized s"
      and rest: "stays_active steps (u_ssh_initialized ?t)"
      using Cons.prems Finalize by simp_all
    have step: "u_ssh_finalize d s = (0, ?t)"
      using nested by (rule u_ssh_finalize_nested)
    have "1 \<le> u_ssh_initialized ?t"
      using nested by simp
    from Cons.IH [OF this rest] obtain s' es where
      r: "run steps ?t = Inr (map (epoch_status (u_ssh_init_ret ?t)) steps, s')"
      and c: "1 \<le> u_ssh_initialized s'"
      and k: "u_ssh_init_ret s' = u_ssh_init_ret ?t"
      and e: "calls s' = calls ?t @ es" "collaborator_calls es = []"
      by blast
    have "calls s' = calls s @ (locking d [] @ es)"
      using e by simp
    moreover have "collaborator_calls (locking d [] @ es) = []"
      using e by (simp add: collaborator_calls_append collaborator_calls_locking)
        (simp add: collaborator_calls_def)
    ultimately show ?thesis
      using step r c k Finalize by (auto simp: epoch_status_def)
  qed
qed

lemma u_ssh_init_counts:
  assumes "u_ssh_init env c s = Inr (rc, s')"
  shows "u_ssh_initialized s' = u_ssh_initialized s + 1"
  using assms
  by (auto simp: u_ssh_init_def Let_def called_def SSH_STATIC_MUTEX_LOCK_def
      SSH_STATIC_MUTEX_UNLOCK_def split: if_splits)

lemma u_ssh_finalize_nonneg:
  assumes "0 \<le> u_ssh_initialized s"
  shows "0 \<le> u_ssh_initialized (snd (u_ssh_finalize d s))"
  using assms
  by (simp add: u_ssh_finalize_def Let_def called_def SSH_STATIC_MUTEX_LOCK_def
      SSH_STATIC_MUTEX_UNLOCK_def)

lemma run_nonneg:
  assumes "0 \<le> u_ssh_initialized s" and "run steps s = Inr (rcs, s')"
  shows "0 \<le> u_ssh_initialized s'"
  using assms
proof (induction steps arbitrary: s rcs)
  case Nil
  then show ?case by simp
next
  case (Cons x steps)
  show ?case
  proof (cases x)
    case (Init c env)
    with Cons.prems obtain rc t rcs' where
      i: "u_ssh_init env c s = Inr (rc, t)" and r: "run steps t = Inr (rcs', s')"
      by (auto split: sum.splits prod.splits)
    from u_ssh_init_counts [OF i] Cons.prems(1) have "0 \<le> u_ssh_initialized t"
      by simp
    from Cons.IH [OF this r] show ?thesis .
  next
    case (Finalize d)
    with Cons.prems obtain rcs' where
      r: "run steps (snd (u_ssh_finalize d s)) = Inr (rcs', s')"
      by (auto split: sum.splits prod.splits)
    from Cons.IH [OF u_ssh_finalize_nonneg [OF Cons.prems(1)] r] show ?thesis .
  qed
qed

lemma count_list_collaborator_calls:
  assumes "is_collaborator e"
  shows "count_list (collaborator_calls es) e = count_list es e"
  using assms by (induction es) (auto simp: collaborator_calls_def)

lemma balanced_calls_once:
  assumes "is_collaborator e"
  shows "count_list [Ssh_threads_init, Ssh_crypto_init, Ssh_socket_init,
           Ssh_crypto_finalize, Ssh_socket_cleanup, Ssh_threads_finalize] e = 1"
  using assms by (cases e) (simp_all add: is_collaborator_def)

subsection \<open>C4: the bring-up of the first call\<close>

text \<open>
  C4. A call of \<^verbatim>\<open>_ssh_init\<close> that finds the counter at 0 sets it to 1 and runs the
  bring-up in the order threads, crypto, sockets, stopping at the first initialiser that
  returns a nonzero status: when \<^verbatim>\<open>ssh_threads_init\<close> fails nothing else is called,
  when \<^verbatim>\<open>ssh_crypto_init\<close> fails \<^verbatim>\<open>ssh_socket_init\<close> is not called. The status cached
  in \<^verbatim>\<open>_ssh_init_ret\<close> and returned is the first nonzero status, or the status of
  \<^verbatim>\<open>ssh_socket_init\<close> (0 on full success) when the first two succeed.
\<close>

theorem init_first_call_bring_up:
  assumes "u_ssh_initialized s = 0"
  shows "(ssh_threads_init env \<noteq> 0 \<longrightarrow>
            u_ssh_init env c s =
              Inr (ssh_threads_init env,
                   s\<lparr>u_ssh_initialized := 1, u_ssh_init_ret := ssh_threads_init env,
                     calls := calls s @ locking c [Ssh_threads_init]\<rparr>))
       \<and> (ssh_threads_init env = 0 \<and> ssh_crypto_init env \<noteq> 0 \<longrightarrow>
            u_ssh_init env c s =
              Inr (ssh_crypto_init env,
                   s\<lparr>u_ssh_initialized := 1, u_ssh_init_ret := ssh_crypto_init env,
                     calls := calls s @ locking c [Ssh_threads_init, Ssh_crypto_init]\<rparr>))
       \<and> (ssh_threads_init env = 0 \<and> ssh_crypto_init env = 0 \<longrightarrow>
            u_ssh_init env c s =
              Inr (ssh_socket_init env,
                   s\<lparr>u_ssh_initialized := 1, u_ssh_init_ret := ssh_socket_init env,
                     calls := calls s @
                       locking c [Ssh_threads_init, Ssh_crypto_init, Ssh_socket_init]\<rparr>))"
  using u_ssh_init_first [OF assms, of env c]
  by (simp add: bring_up_status_def bring_up_calls_def)

theorem init_first_call_bring_up_witness:
  "u_ssh_init \<lparr>ssh_threads_init = 0, ssh_crypto_init = - 1, ssh_socket_init = 0\<rparr> False initial =
     Inr (- 1, \<lparr>u_ssh_initialized = 1, u_ssh_init_ret = - 1,
                calls = [Lock_ssh_init_mutex, Ssh_threads_init, Ssh_crypto_init,
                         Unlock_ssh_init_mutex]\<rparr>)
   \<and> u_ssh_init \<lparr>ssh_threads_init = 0, ssh_crypto_init = 0, ssh_socket_init = 0\<rparr> True initial =
     Inr (0, \<lparr>u_ssh_initialized = 1, u_ssh_init_ret = 0,
              calls = [Ssh_threads_init, Ssh_crypto_init, Ssh_socket_init]\<rparr>)
   \<and> u_ssh_init \<lparr>ssh_threads_init = 5, ssh_crypto_init = 0, ssh_socket_init = 0\<rparr> True initial =
     Inr (5, \<lparr>u_ssh_initialized = 1, u_ssh_init_ret = 5, calls = [Ssh_threads_init]\<rparr>)"
  using
    init_first_call_bring_up [of initial
      "\<lparr>ssh_threads_init = 0, ssh_crypto_init = - 1, ssh_socket_init = 0\<rparr>" False]
    init_first_call_bring_up [of initial
      "\<lparr>ssh_threads_init = 0, ssh_crypto_init = 0, ssh_socket_init = 0\<rparr>" True]
    init_first_call_bring_up [of initial
      "\<lparr>ssh_threads_init = 5, ssh_crypto_init = 0, ssh_socket_init = 0\<rparr>" True]
  by (simp add: initial_def locking_def)

subsection \<open>C5: later calls of an epoch\<close>

text \<open>
  C5, as the code has it. A call of \<^verbatim>\<open>_ssh_init\<close> that finds the counter at 1 or more
  and below \<^verbatim>\<open>INT_MAX\<close> adds exactly one to the counter, calls no collaborator, returns
  the cached \<^verbatim>\<open>_ssh_init_ret\<close> and leaves it as it was. Hence, after the call that moved
  the counter from 0 to 1 returned \<open>rc\<close>, in every sequence of calls of \<^verbatim>\<open>_ssh_init\<close>
  and \<^verbatim>\<open>_ssh_finalize\<close> that stays inside the epoch each \<^verbatim>\<open>_ssh_init\<close> returns \<open>rc\<close>,
  whatever the initialisers would have returned, each \<^verbatim>\<open>_ssh_finalize\<close> returns 0, the
  cached result is still \<open>rc\<close> and no collaborator has been called.
\<close>

theorem init_while_active:
  "(1 \<le> u_ssh_initialized s \<and> u_ssh_initialized s < INT_MAX \<longrightarrow>
      (\<exists>s'. u_ssh_init env c s = Inr (u_ssh_init_ret s, s')
          \<and> u_ssh_initialized s' = u_ssh_initialized s + 1
          \<and> u_ssh_init_ret s' = u_ssh_init_ret s
          \<and> calls s' = calls s @ locking c []
          \<and> collaborator_calls (calls s') = collaborator_calls (calls s)))
   \<and> (u_ssh_initialized s0 = 0 \<and> u_ssh_init env0 c0 s0 = Inr (rc, s1)
        \<and> stays_active steps 1 \<longrightarrow>
      (\<exists>s'. run steps s1 = Inr (map (epoch_status rc) steps, s')
          \<and> 1 \<le> u_ssh_initialized s'
          \<and> u_ssh_init_ret s' = rc
          \<and> collaborator_calls (calls s') = collaborator_calls (calls s1)))"
proof (intro conjI impI)
  assume a: "1 \<le> u_ssh_initialized s \<and> u_ssh_initialized s < INT_MAX"
  let ?t = "s\<lparr>u_ssh_initialized := u_ssh_initialized s + 1,
                calls := calls s @ locking c []\<rparr>"
  have "u_ssh_init env c s = Inr (u_ssh_init_ret s, ?t)"
    using a by (intro u_ssh_init_active) simp_all
  moreover have "collaborator_calls (calls ?t) = collaborator_calls (calls s)"
    by (simp add: collaborator_calls_append collaborator_calls_locking)
      (simp add: collaborator_calls_def)
  ultimately show "\<exists>s'. u_ssh_init env c s = Inr (u_ssh_init_ret s, s')
      \<and> u_ssh_initialized s' = u_ssh_initialized s + 1
      \<and> u_ssh_init_ret s' = u_ssh_init_ret s
      \<and> calls s' = calls s @ locking c []
      \<and> collaborator_calls (calls s') = collaborator_calls (calls s)"
    by (intro exI [of _ ?t]) simp
next
  assume b: "u_ssh_initialized s0 = 0 \<and> u_ssh_init env0 c0 s0 = Inr (rc, s1)
    \<and> stays_active steps 1"
  then have idle: "u_ssh_initialized s0 = 0" by simp
  from b u_ssh_init_first [OF idle, of env0 c0]
  have s1: "u_ssh_initialized s1 = 1" "u_ssh_init_ret s1 = rc"
    by auto
  have "1 \<le> u_ssh_initialized s1" and "stays_active steps (u_ssh_initialized s1)"
    using s1 b by simp_all
  from run_stays_active [OF this] obtain s' es where
    "run steps s1 = Inr (map (epoch_status (u_ssh_init_ret s1)) steps, s')"
    "1 \<le> u_ssh_initialized s'"
    "u_ssh_init_ret s' = u_ssh_init_ret s1"
    "calls s' = calls s1 @ es" "collaborator_calls es = []"
    by blast
  then show "\<exists>s'. run steps s1 = Inr (map (epoch_status rc) steps, s')
      \<and> 1 \<le> u_ssh_initialized s'
      \<and> u_ssh_init_ret s' = rc
      \<and> collaborator_calls (calls s') = collaborator_calls (calls s1)"
    using s1 by (intro exI [of _ s']) (simp add: collaborator_calls_append)
qed

theorem init_while_active_witness:
  "u_ssh_init \<lparr>ssh_threads_init = 7, ssh_crypto_init = 8, ssh_socket_init = 9\<rparr> False
     \<lparr>u_ssh_initialized = 1, u_ssh_init_ret = - 1, calls = [Ssh_threads_init]\<rparr> =
     Inr (- 1, \<lparr>u_ssh_initialized = 2, u_ssh_init_ret = - 1,
                calls = [Ssh_threads_init, Lock_ssh_init_mutex, Unlock_ssh_init_mutex]\<rparr>)
   \<and> u_ssh_init \<lparr>ssh_threads_init = - 1, ssh_crypto_init = 0, ssh_socket_init = 0\<rparr> True
       initial =
     Inr (- 1, \<lparr>u_ssh_initialized = 1, u_ssh_init_ret = - 1, calls = [Ssh_threads_init]\<rparr>)
   \<and> stays_active
       [Init True \<lparr>ssh_threads_init = 0, ssh_crypto_init = 0, ssh_socket_init = 0\<rparr>,
        Finalize True,
        Init True \<lparr>ssh_threads_init = 7, ssh_crypto_init = 8, ssh_socket_init = 9\<rparr>] 1
   \<and> run [Init True \<lparr>ssh_threads_init = 0, ssh_crypto_init = 0, ssh_socket_init = 0\<rparr>,
           Finalize True,
           Init True \<lparr>ssh_threads_init = 7, ssh_crypto_init = 8, ssh_socket_init = 9\<rparr>]
       \<lparr>u_ssh_initialized = 1, u_ssh_init_ret = - 1, calls = [Ssh_threads_init]\<rparr> =
     Inr ([- 1, 0, - 1],
          \<lparr>u_ssh_initialized = 2, u_ssh_init_ret = - 1, calls = [Ssh_threads_init]\<rparr>)"
  using
    init_while_active [of
      "\<lparr>u_ssh_initialized = 1, u_ssh_init_ret = - 1, calls = [Ssh_threads_init]\<rparr>"
      "\<lparr>ssh_threads_init = 7, ssh_crypto_init = 8, ssh_socket_init = 9\<rparr>" False
      initial "\<lparr>ssh_threads_init = - 1, ssh_crypto_init = 0, ssh_socket_init = 0\<rparr>" True
      "- 1" "\<lparr>u_ssh_initialized = 1, u_ssh_init_ret = - 1, calls = [Ssh_threads_init]\<rparr>"
      "[Init True \<lparr>ssh_threads_init = 0, ssh_crypto_init = 0, ssh_socket_init = 0\<rparr>,
        Finalize True,
        Init True \<lparr>ssh_threads_init = 7, ssh_crypto_init = 8, ssh_socket_init = 9\<rparr>]"]
  by (auto simp: counter_defs initial_def locking_def epoch_status_def)

text \<open>
  Without the bound the statement fails: with the counter at \<^verbatim>\<open>INT_MAX\<close> the increment
  \<^verbatim>\<open>_ssh_initialized++\<close> overflows, so the call neither adds one to the counter nor
  returns the cached result.
\<close>

theorem init_while_active_counterexample:
  "u_ssh_init \<lparr>ssh_threads_init = 0, ssh_crypto_init = 0, ssh_socket_init = 0\<rparr> True
     \<lparr>u_ssh_initialized = 2147483647, u_ssh_init_ret = 0, calls = []\<rparr> =
     Inl Signed_overflow"
  by (simp add: u_ssh_init_def INT_MAX_def)

subsection \<open>C1: the order of the teardown\<close>

text \<open>
  C1, as the code has it. A call of \<^verbatim>\<open>_ssh_finalize\<close> that finds the counter at 1 and a
  cached result that is not negative (0 after a bring-up that succeeded) sets the counter
  to 0, returns 0 and calls the collaborators in the order \<^verbatim>\<open>ssh_crypto_finalize\<close>,
  \<^verbatim>\<open>ssh_socket_cleanup\<close>, \<^verbatim>\<open>ssh_threads_finalize\<close>: crypto before sockets, as in the
  bring-up, and the thread backend last.
\<close>

theorem teardown_order_in_code:
  assumes "u_ssh_initialized s = 1" and "0 \<le> u_ssh_init_ret s"
  shows "\<exists>es. u_ssh_finalize d s = (0, s\<lparr>u_ssh_initialized := 0, calls := calls s @ es\<rparr>)
           \<and> collaborator_calls es =
               [Ssh_crypto_finalize, Ssh_socket_cleanup, Ssh_threads_finalize]"
proof -
  let ?es = "locking d [Ssh_crypto_finalize, Ssh_socket_cleanup, Ssh_threads_finalize]"
  have "u_ssh_finalize d s = (0, s\<lparr>u_ssh_initialized := 0, calls := calls s @ ?es\<rparr>)"
    using assms by (intro u_ssh_finalize_last_clean) simp_all
  moreover have "collaborator_calls ?es =
      [Ssh_crypto_finalize, Ssh_socket_cleanup, Ssh_threads_finalize]"
    by (simp add: collaborator_calls_locking)
      (simp add: collaborator_calls_def is_collaborator_def)
  ultimately show ?thesis by blast
qed

theorem teardown_order_in_code_witness:
  "u_ssh_finalize True \<lparr>u_ssh_initialized = 1, u_ssh_init_ret = 0, calls = []\<rparr> =
     (0, \<lparr>u_ssh_initialized = 0, u_ssh_init_ret = 0,
          calls = [Ssh_crypto_finalize, Ssh_socket_cleanup, Ssh_threads_finalize]\<rparr>)"
  using teardown_order_in_code
    [of "\<lparr>u_ssh_initialized = 1, u_ssh_init_ret = 0, calls = []\<rparr>" True]
  by (simp add: u_ssh_finalize_def Let_def called_def)

text \<open>
  The claim's order (sockets, then crypto, then threads) is not the order of the code: a
  clean epoch, one \<^verbatim>\<open>ssh_init()\<close> and one \<^verbatim>\<open>ssh_finalize()\<close> with every initialiser
  succeeding, calls \<^verbatim>\<open>ssh_crypto_finalize\<close> before \<^verbatim>\<open>ssh_socket_cleanup\<close>.
\<close>

theorem teardown_order_counterexample:
  "run [Init False \<lparr>ssh_threads_init = 0, ssh_crypto_init = 0, ssh_socket_init = 0\<rparr>,
        Finalize False] initial =
     Inr ([0, 0],
          \<lparr>u_ssh_initialized = 0, u_ssh_init_ret = 0,
           calls = [Lock_ssh_init_mutex, Ssh_threads_init, Ssh_crypto_init, Ssh_socket_init,
                    Unlock_ssh_init_mutex,
                    Lock_ssh_init_mutex, Ssh_crypto_finalize, Ssh_socket_cleanup,
                    Ssh_threads_finalize, Unlock_ssh_init_mutex]\<rparr>)
   \<and> collaborator_calls
        [Lock_ssh_init_mutex, Ssh_crypto_finalize, Ssh_socket_cleanup,
         Ssh_threads_finalize, Unlock_ssh_init_mutex]
       \<noteq> [Ssh_socket_cleanup, Ssh_crypto_finalize, Ssh_threads_finalize]"
  by (simp add: initial_def u_ssh_init_def u_ssh_finalize_def Let_def called_def
      SSH_STATIC_MUTEX_LOCK_def SSH_STATIC_MUTEX_UNLOCK_def INT_MAX_def
      collaborator_calls_def is_collaborator_def)

subsection \<open>C2: no teardown after a failed bring-up\<close>

text \<open>
  C2, as the code has it. A call of \<^verbatim>\<open>_ssh_finalize\<close> that finds the counter at 1 and a
  negative cached result sets the counter to 0, calls none of \<^verbatim>\<open>ssh_crypto_finalize\<close>,
  \<^verbatim>\<open>ssh_socket_cleanup\<close> and \<^verbatim>\<open>ssh_threads_finalize\<close>, and returns 0.
\<close>

theorem finalize_after_negative_result:
  assumes "u_ssh_initialized s = 1" and "u_ssh_init_ret s < 0"
  shows "\<exists>es. u_ssh_finalize d s = (0, s\<lparr>u_ssh_initialized := 0, calls := calls s @ es\<rparr>)
           \<and> collaborator_calls es = []"
proof -
  have "u_ssh_finalize d s =
      (0, s\<lparr>u_ssh_initialized := 0, calls := calls s @ locking d []\<rparr>)"
    using assms by (rule u_ssh_finalize_last_failed)
  moreover have "collaborator_calls (locking d []) = []"
    by (simp add: collaborator_calls_locking) (simp add: collaborator_calls_def)
  ultimately show ?thesis by blast
qed

theorem finalize_after_negative_result_witness:
  "u_ssh_finalize False
     \<lparr>u_ssh_initialized = 1, u_ssh_init_ret = - 1,
      calls = [Ssh_threads_init, Ssh_crypto_init]\<rparr> =
     (0, \<lparr>u_ssh_initialized = 0, u_ssh_init_ret = - 1,
          calls = [Ssh_threads_init, Ssh_crypto_init,
                   Lock_ssh_init_mutex, Unlock_ssh_init_mutex]\<rparr>)"
  using finalize_after_negative_result
    [of "\<lparr>u_ssh_initialized = 1, u_ssh_init_ret = - 1,
          calls = [Ssh_threads_init, Ssh_crypto_init]\<rparr>" False]
  by (simp add: u_ssh_finalize_def Let_def called_def SSH_STATIC_MUTEX_LOCK_def
      SSH_STATIC_MUTEX_UNLOCK_def)

text \<open>
  The guard of the source is \<^verbatim>\<open>_ssh_init_ret < 0\<close>, so a positive failure status is not
  covered: when \<^verbatim>\<open>ssh_crypto_init\<close> returns 1 the bring-up stops before
  \<^verbatim>\<open>ssh_socket_init\<close> and caches 1, and the next \<^verbatim>\<open>_ssh_finalize\<close> runs the whole
  teardown.
\<close>

theorem finalize_after_positive_result_counterexample:
  "u_ssh_init \<lparr>ssh_threads_init = 0, ssh_crypto_init = 1, ssh_socket_init = 0\<rparr> True initial =
     Inr (1, \<lparr>u_ssh_initialized = 1, u_ssh_init_ret = 1,
              calls = [Ssh_threads_init, Ssh_crypto_init]\<rparr>)
   \<and> u_ssh_finalize True
       \<lparr>u_ssh_initialized = 1, u_ssh_init_ret = 1,
        calls = [Ssh_threads_init, Ssh_crypto_init]\<rparr> =
     (0, \<lparr>u_ssh_initialized = 0, u_ssh_init_ret = 1,
          calls = [Ssh_threads_init, Ssh_crypto_init,
                   Ssh_crypto_finalize, Ssh_socket_cleanup, Ssh_threads_finalize]\<rparr>)"
  by (simp add: initial_def u_ssh_init_def u_ssh_finalize_def Let_def called_def INT_MAX_def)

subsection \<open>C6: the counter has a floor at 0\<close>

text \<open>
  C6. \<^verbatim>\<open>_ssh_finalize\<close> returns 0 in every state and never takes a counter that is not
  negative below 0; at counter 0 it changes neither the counter nor the cached result and
  calls no collaborator (with the destructor flag clear it only takes and releases the
  static mutex). No sequence of calls of the two functions, started with a counter that
  is not negative, ends with a negative counter.
\<close>

theorem finalize_floor:
  "fst (u_ssh_finalize d s) = 0
   \<and> (0 \<le> u_ssh_initialized s \<longrightarrow> 0 \<le> u_ssh_initialized (snd (u_ssh_finalize d s)))
   \<and> (u_ssh_initialized s = 0 \<longrightarrow>
        u_ssh_finalize d s = (0, s\<lparr>calls := calls s @ locking d []\<rparr>))
   \<and> (0 \<le> u_ssh_initialized s \<and> run steps s = Inr (rcs, s') \<longrightarrow>
        0 \<le> u_ssh_initialized s')"
  using fst_u_ssh_finalize [of d s] u_ssh_finalize_nonneg [of s d]
    u_ssh_finalize_idle [of s d] run_nonneg [of s steps rcs s']
  by simp

theorem finalize_floor_witness:
  "u_ssh_finalize True initial = (0, initial)
   \<and> fst (u_ssh_finalize False initial) = 0
   \<and> u_ssh_initialized (snd (u_ssh_finalize False initial)) = 0
   \<and> u_ssh_init_ret (snd (u_ssh_finalize False initial)) = 0
   \<and> calls (snd (u_ssh_finalize False initial)) = [Lock_ssh_init_mutex, Unlock_ssh_init_mutex]
   \<and> run [Finalize True, Finalize True] initial = Inr ([0, 0], initial)"
  using finalize_floor [of True initial "[Finalize True, Finalize True]" "[0, 0]" initial]
    finalize_floor [of False initial "[Finalize True, Finalize True]" "[0, 0]" initial]
  by (simp add: initial_def locking_def u_ssh_finalize_def Let_def)

subsection \<open>C7: balanced sequences\<close>

text \<open>
  C7, as the code has it. Starting with the counter at 0, \<open>N\<close> calls of \<^verbatim>\<open>_ssh_init\<close>
  followed by \<open>N\<close> calls of \<^verbatim>\<open>_ssh_finalize\<close>, with \<open>N\<close> at least 1 and at most
  \<^verbatim>\<open>INT_MAX\<close> and every initialiser succeeding, all return 0 and bring the counter back
  to 0, and each of the six collaborator functions is called exactly once (the
  initialisers by the first call, the teardown by the last).
\<close>

theorem balanced_epoch:
  assumes idle: "u_ssh_initialized s = 0"
    and ne: "xs \<noteq> []"
    and len: "length ds = length xs"
    and bound: "int (length xs) \<le> INT_MAX"
    and ok: "\<forall>x \<in> set xs. ssh_threads_init (snd x) = 0 \<and> ssh_crypto_init (snd x) = 0
               \<and> ssh_socket_init (snd x) = 0"
  shows "\<exists>s' es.
           run (map (\<lambda>x. Init (fst x) (snd x)) xs @ map Finalize ds) s =
             Inr (replicate (length xs + length ds) 0, s')
         \<and> u_ssh_initialized s' = 0
         \<and> calls s' = calls s @ es
         \<and> collaborator_calls es =
             [Ssh_threads_init, Ssh_crypto_init, Ssh_socket_init,
              Ssh_crypto_finalize, Ssh_socket_cleanup, Ssh_threads_finalize]
         \<and> (\<forall>e. is_collaborator e \<longrightarrow> count_list es e = 1)"
proof -
  from ne obtain x xs' where xs: "xs = x # xs'"
    by (cases xs) auto
  from len xs obtain ds' d where ds: "ds = ds' @ [d]" and len': "length ds' = length xs'"
    by (cases ds rule: rev_cases) auto
  let ?up = "[Ssh_threads_init, Ssh_crypto_init, Ssh_socket_init]"
  let ?down = "[Ssh_crypto_finalize, Ssh_socket_cleanup, Ssh_threads_finalize]"
  let ?s1 = "s\<lparr>u_ssh_initialized := 1, u_ssh_init_ret := 0,
                 calls := calls s @ locking (fst x) ?up\<rparr>"
  have zero: "bring_up_status (snd x) = 0" "bring_up_calls (snd x) = ?up"
    using ok xs by (simp_all add: bring_up_status_def bring_up_calls_def)
  have first: "u_ssh_init (snd x) (fst x) s = Inr (0, ?s1)"
    using u_ssh_init_first [OF idle, of "snd x" "fst x"] zero by simp
  have "1 \<le> u_ssh_initialized ?s1"
    and "u_ssh_initialized ?s1 + int (length xs') \<le> INT_MAX"
    using bound xs by simp_all
  from run_inits_active [OF this] obtain s2 es2 where
    r2: "run (map (\<lambda>x. Init (fst x) (snd x)) xs') ?s1 = Inr (replicate (length xs') 0, s2)"
    and c2: "u_ssh_initialized s2 = 1 + int (length xs')"
    and k2: "u_ssh_init_ret s2 = 0"
    and e2: "calls s2 = calls ?s1 @ es2" "collaborator_calls es2 = []"
    by auto
  have "int (length ds') < u_ssh_initialized s2"
    using c2 len' by simp
  from run_finalizes_nested [OF this] obtain s3 es3 where
    r3: "run (map Finalize ds') s2 = Inr (replicate (length ds') 0, s3)"
    and c3: "u_ssh_initialized s3 = 1"
    and k3: "u_ssh_init_ret s3 = 0"
    and e3: "calls s3 = calls s2 @ es3" "collaborator_calls es3 = []"
    using c2 k2 len' by auto
  let ?s4 = "s3\<lparr>u_ssh_initialized := 0, calls := calls s3 @ locking d ?down\<rparr>"
  have last: "u_ssh_finalize d s3 = (0, ?s4)"
    using c3 k3 by (intro u_ssh_finalize_last_clean) simp_all
  let ?es = "locking (fst x) ?up @ es2 @ es3 @ locking d ?down"
  have inits: "run (map (\<lambda>x. Init (fst x) (snd x)) xs) s =
                 Inr (replicate (length xs) 0, s2)"
    using first r2 xs by simp
  have finals: "run (map Finalize ds) s2 = Inr (replicate (length ds) 0, ?s4)"
    using r3 last ds by (simp add: run_append replicate_append_same)
  have whole: "run (map (\<lambda>x. Init (fst x) (snd x)) xs @ map Finalize ds) s =
                 Inr (replicate (length xs + length ds) 0, ?s4)"
    using inits finals by (simp add: run_append replicate_add)
  have evs: "calls ?s4 = calls s @ ?es"
    using e2 e3 by simp
  have coll: "collaborator_calls ?es = ?up @ ?down"
    using e2 e3 by (simp add: collaborator_calls_append collaborator_calls_locking)
      (simp add: collaborator_calls_def is_collaborator_def)
  have once: "\<forall>e. is_collaborator e \<longrightarrow> count_list ?es e = 1"
  proof (intro allI impI)
    fix e assume e: "is_collaborator e"
    have "count_list ?es e = count_list (collaborator_calls ?es) e"
      using count_list_collaborator_calls [OF e] by simp
    also have "\<dots> = 1"
      using balanced_calls_once [OF e] coll by simp
    finally show "count_list ?es e = 1" .
  qed
  have "u_ssh_initialized ?s4 = 0" by simp
  with whole evs coll once show ?thesis
    by (intro exI [of _ ?s4] exI [of _ ?es]) simp
qed

theorem balanced_epoch_witness:
  "\<exists>s'. run [Init False \<lparr>ssh_threads_init = 0, ssh_crypto_init = 0, ssh_socket_init = 0\<rparr>,
             Init True \<lparr>ssh_threads_init = 0, ssh_crypto_init = 0, ssh_socket_init = 0\<rparr>,
             Finalize False, Finalize True] initial = Inr ([0, 0, 0, 0], s')
       \<and> u_ssh_initialized s' = 0
       \<and> collaborator_calls (calls s') =
           [Ssh_threads_init, Ssh_crypto_init, Ssh_socket_init,
            Ssh_crypto_finalize, Ssh_socket_cleanup, Ssh_threads_finalize]"
  using balanced_epoch [of initial
      "[(False, \<lparr>ssh_threads_init = 0, ssh_crypto_init = 0, ssh_socket_init = 0\<rparr>),
        (True, \<lparr>ssh_threads_init = 0, ssh_crypto_init = 0, ssh_socket_init = 0\<rparr>)]"
      "[False, True]"]
  by (auto simp: initial_def INT_MAX_def)

text \<open>
  With \<open>N = 0\<close> there is no call at all: the counter stays 0 and no collaborator is
  called, so none is called exactly once.
\<close>

theorem balanced_epoch_counterexample:
  "run (map (\<lambda>x. Init (fst x) (snd x)) [] @ map Finalize []) initial = Inr ([], initial)
   \<and> count_list (calls initial) Ssh_threads_init = 0
   \<and> count_list (calls initial) Ssh_threads_finalize = 0"
  by (simp add: initial_def)

section \<open>Properties of the mutex interface\<close>

lemmas pthread_defs =
  ssh_pthread_mutex_init_def ssh_pthread_mutex_destroy_def ssh_pthread_mutex_lock_def
  ssh_pthread_mutex_unlock_def ssh_static_mutex_init_def ssh_mutex_init_def
  ssh_mutex_lock_def ssh_mutex_unlock_def ssh_mutex_destroy_def
  call_malloc_def call_free_def did_def load_def store_def Let_def

lemma ssh_mutex_lock_target:
  assumes "mutex \<noteq> NULL"
  shows "libc_calls (snd (ssh_mutex_lock env param mutex m)) =
           libc_calls m @ [Pthread_mutex_lock mutex]"
  using assms by (simp add: pthread_defs)

lemma ssh_mutex_unlock_target:
  assumes "mutex \<noteq> NULL"
  shows "libc_calls (snd (ssh_mutex_unlock env param mutex m)) =
           libc_calls m @ [Pthread_mutex_unlock mutex]"
  using assms by (simp add: pthread_defs)

lemma ssh_mutex_destroy_target:
  assumes "mutex \<noteq> NULL"
  shows "libc_calls (snd (ssh_mutex_destroy env mutex m)) =
           libc_calls m @ [Pthread_mutex_destroy (load mutex m), Free (load mutex m)]"
  using assms by (simp add: pthread_defs)

subsection \<open>C9: a null handle ends the process\<close>

text \<open>
  C9. Each of \<^verbatim>\<open>ssh_mutex_init\<close>, \<^verbatim>\<open>ssh_mutex_lock\<close>, \<^verbatim>\<open>ssh_mutex_unlock\<close> and
  \<^verbatim>\<open>ssh_mutex_destroy\<close>, called with a null handle, ends the process with
  \<^verbatim>\<open>exit(EINVAL)\<close>: it does not return, and it makes no call of the C library before.
\<close>

theorem null_handle_is_fatal:
  "ssh_mutex_init env NULL m = (Exit EINVAL, m)
   \<and> fst (ssh_mutex_lock env param NULL m) = Exit EINVAL
   \<and> libc_calls (snd (ssh_mutex_lock env param NULL m)) = libc_calls m
   \<and> fst (ssh_mutex_unlock env param NULL m) = Exit EINVAL
   \<and> libc_calls (snd (ssh_mutex_unlock env param NULL m)) = libc_calls m
   \<and> ssh_mutex_destroy env NULL m = (Exit EINVAL, m)"
  by (simp add: pthread_defs)

theorem null_handle_is_fatal_witness:
  "ssh_mutex_init libc_ok NULL empty_memory = (Exit 22, empty_memory)
   \<and> fst (ssh_mutex_lock libc_ok 900 NULL empty_memory) = Exit 22
   \<and> fst (ssh_mutex_unlock libc_ok 900 NULL empty_memory) = Exit 22
   \<and> ssh_mutex_destroy libc_ok NULL empty_memory = (Exit 22, empty_memory)"
  using null_handle_is_fatal [of libc_ok empty_memory 900]
  by (simp add: EINVAL_def)

subsection \<open>C10: a failed creation leaves the handle empty\<close>

text \<open>
  C10. In \<^verbatim>\<open>ssh_pthread_mutex_init\<close>, once the attribute is set up: when \<^verbatim>\<open>malloc\<close>
  returns \<^verbatim>\<open>NULL\<close> the function returns \<^verbatim>\<open>ENOMEM\<close> and the handle's cell holds
  \<^verbatim>\<open>NULL\<close>; when \<^verbatim>\<open>pthread_mutex_init\<close> fails on the block the function frees the
  block, stores \<^verbatim>\<open>NULL\<close> in the handle's cell and returns the status of
  \<^verbatim>\<open>pthread_mutex_init\<close>.
\<close>

theorem backend_init_failure_resets_handle:
  assumes "pthread_mutexattr_init env = 0" and "pthread_mutexattr_settype env = 0"
  shows "(malloc env = NULL \<longrightarrow>
            fst (ssh_pthread_mutex_init env mutex m) = Return ENOMEM
          \<and> load mutex (snd (ssh_pthread_mutex_init env mutex m)) = NULL
          \<and> allocated (snd (ssh_pthread_mutex_init env mutex m)) = allocated m)
       \<and> (malloc env \<noteq> NULL \<and> pthread_mutex_init env (malloc env) \<noteq> 0 \<longrightarrow>
            fst (ssh_pthread_mutex_init env mutex m) =
              Return (pthread_mutex_init env (malloc env))
          \<and> load mutex (snd (ssh_pthread_mutex_init env mutex m)) = NULL
          \<and> allocated (snd (ssh_pthread_mutex_init env mutex m)) = allocated m - {malloc env}
          \<and> libc_calls (snd (ssh_pthread_mutex_init env mutex m)) =
              libc_calls m @
                [Pthread_mutexattr_init, Pthread_mutexattr_settype, Malloc (malloc env),
                 Pthread_mutex_init (malloc env), Free (malloc env)])"
  using assms by (simp add: pthread_defs)

theorem backend_init_failure_resets_handle_witness:
  "fst (ssh_pthread_mutex_init (libc_ok\<lparr>malloc := NULL\<rparr>) 100 (store 100 77 empty_memory)) =
     Return 12
   \<and> load 100 (snd (ssh_pthread_mutex_init (libc_ok\<lparr>malloc := NULL\<rparr>) 100
        (store 100 77 empty_memory))) = NULL
   \<and> fst (ssh_pthread_mutex_init (libc_ok\<lparr>pthread_mutex_init := (\<lambda>a. 11)\<rparr>) 100
        (store 100 77 empty_memory)) = Return 11
   \<and> load 100 (snd (ssh_pthread_mutex_init (libc_ok\<lparr>pthread_mutex_init := (\<lambda>a. 11)\<rparr>) 100
        (store 100 77 empty_memory))) = NULL
   \<and> allocated (snd (ssh_pthread_mutex_init (libc_ok\<lparr>pthread_mutex_init := (\<lambda>a. 11)\<rparr>) 100
        (store 100 77 empty_memory))) = {}"
  using
    backend_init_failure_resets_handle [of "libc_ok\<lparr>malloc := NULL\<rparr>" 100
      "store 100 77 empty_memory"]
    backend_init_failure_resets_handle [of "libc_ok\<lparr>pthread_mutex_init := (\<lambda>a. 11)\<rparr>" 100
      "store 100 77 empty_memory"]
  by (simp add: libc_ok_def NULL_def ENOMEM_def empty_memory_def store_def)

subsection \<open>C3: the memory that lock and unlock reach\<close>

text \<open>
  C3 asks that \<^verbatim>\<open>ssh_mutex_lock\<close> and \<^verbatim>\<open>ssh_mutex_unlock\<close> apply the pthread call to
  the handle's pointee, the block that \<^verbatim>\<open>ssh_mutex_init\<close> allocated and
  \<^verbatim>\<open>ssh_mutex_destroy\<close> frees. The code does not: for the handle at address 100, which
  \<^verbatim>\<open>ssh_mutex_init\<close> makes point to the block at 200 where it constructs the mutex,
  lock and unlock call pthread on address 100, the cell of the handle, while destroy
  calls it on the block at 200.
\<close>

theorem dynamic_lock_misses_pointee:
  "ssh_mutex_init libc_ok 100 empty_memory =
     (Return (),
      \<lparr>cells = (\<lambda>a. NULL)(100 := 200), allocated = {200},
       libc_calls = [Pthread_mutexattr_init, Pthread_mutexattr_settype, Malloc 200,
                     Pthread_mutex_init 200]\<rparr>)
   \<and> libc_calls (snd (ssh_mutex_lock libc_ok 900 100
        (snd (ssh_mutex_init libc_ok 100 empty_memory)))) =
       [Pthread_mutexattr_init, Pthread_mutexattr_settype, Malloc 200,
        Pthread_mutex_init 200, Pthread_mutex_lock 100]
   \<and> libc_calls (snd (ssh_mutex_unlock libc_ok 900 100
        (snd (ssh_mutex_init libc_ok 100 empty_memory)))) =
       [Pthread_mutexattr_init, Pthread_mutexattr_settype, Malloc 200,
        Pthread_mutex_init 200, Pthread_mutex_unlock 100]
   \<and> libc_calls (snd (ssh_mutex_destroy libc_ok 100
        (snd (ssh_mutex_init libc_ok 100 empty_memory)))) =
       [Pthread_mutexattr_init, Pthread_mutexattr_settype, Malloc 200,
        Pthread_mutex_init 200, Pthread_mutex_destroy 200, Free 200]"
  by (simp add: pthread_defs libc_ok_def empty_memory_def NULL_def)

subsection \<open>C8: failures while a lock is created\<close>

text \<open>
  C8, as the code has it. For a handle that is not null, in \<^verbatim>\<open>ssh_pthread_mutex_init\<close>,
  \<^verbatim>\<open>ssh_mutex_init\<close> and \<^verbatim>\<open>ssh_static_mutex_init\<close> alike, a failure of
  \<^verbatim>\<open>pthread_mutexattr_init\<close> or of \<^verbatim>\<open>pthread_mutexattr_settype\<close> ends the process at
  once, with the status as exit code: the failed call is the last call of the C library
  and the memory is as it was. A failure of \<^verbatim>\<open>pthread_mutex_init\<close> ends the process at
  once in \<^verbatim>\<open>ssh_static_mutex_init\<close>. In \<^verbatim>\<open>ssh_pthread_mutex_init\<close>, the backend's
  operation, it does not: the block is freed, the handle's cell is set to \<^verbatim>\<open>NULL\<close> and
  the status is returned to the caller; it is the caller \<^verbatim>\<open>ssh_mutex_init\<close> that ends the
  process with that status, in the same memory.
\<close>

theorem creation_failures:
  assumes "mutex \<noteq> NULL"
  shows
    "(pthread_mutexattr_init env \<noteq> 0 \<longrightarrow>
        ssh_pthread_mutex_init env mutex m =
          (Exit (pthread_mutexattr_init env),
           m\<lparr>libc_calls := libc_calls m @ [Pthread_mutexattr_init]\<rparr>)
      \<and> ssh_mutex_init env mutex m =
          (Exit (pthread_mutexattr_init env),
           m\<lparr>libc_calls := libc_calls m @ [Pthread_mutexattr_init]\<rparr>)
      \<and> ssh_static_mutex_init env mutex m =
          (Exit (pthread_mutexattr_init env),
           m\<lparr>libc_calls := libc_calls m @ [Pthread_mutexattr_init]\<rparr>))
     \<and> (pthread_mutexattr_init env = 0 \<and> pthread_mutexattr_settype env \<noteq> 0 \<longrightarrow>
        ssh_pthread_mutex_init env mutex m =
          (Exit (pthread_mutexattr_settype env),
           m\<lparr>libc_calls := libc_calls m @
               [Pthread_mutexattr_init, Pthread_mutexattr_settype]\<rparr>)
      \<and> ssh_mutex_init env mutex m =
          (Exit (pthread_mutexattr_settype env),
           m\<lparr>libc_calls := libc_calls m @
               [Pthread_mutexattr_init, Pthread_mutexattr_settype]\<rparr>)
      \<and> ssh_static_mutex_init env mutex m =
          (Exit (pthread_mutexattr_settype env),
           m\<lparr>libc_calls := libc_calls m @
               [Pthread_mutexattr_init, Pthread_mutexattr_settype]\<rparr>))
     \<and> (pthread_mutexattr_init env = 0 \<and> pthread_mutexattr_settype env = 0
          \<and> pthread_mutex_init env mutex \<noteq> 0 \<longrightarrow>
        ssh_static_mutex_init env mutex m =
          (Exit (pthread_mutex_init env mutex),
           m\<lparr>libc_calls := libc_calls m @
               [Pthread_mutexattr_init, Pthread_mutexattr_settype,
                Pthread_mutex_init mutex]\<rparr>))
     \<and> (pthread_mutexattr_init env = 0 \<and> pthread_mutexattr_settype env = 0
          \<and> malloc env \<noteq> NULL \<and> pthread_mutex_init env (malloc env) \<noteq> 0 \<longrightarrow>
        ssh_pthread_mutex_init env mutex m =
          (Return (pthread_mutex_init env (malloc env)),
           m\<lparr>cells := (cells m)(mutex := NULL),
             allocated := allocated m - {malloc env},
             libc_calls := libc_calls m @
               [Pthread_mutexattr_init, Pthread_mutexattr_settype, Malloc (malloc env),
                Pthread_mutex_init (malloc env), Free (malloc env)]\<rparr>)
      \<and> ssh_mutex_init env mutex m =
          (Exit (pthread_mutex_init env (malloc env)),
           m\<lparr>cells := (cells m)(mutex := NULL),
             allocated := allocated m - {malloc env},
             libc_calls := libc_calls m @
               [Pthread_mutexattr_init, Pthread_mutexattr_settype, Malloc (malloc env),
                Pthread_mutex_init (malloc env), Free (malloc env)]\<rparr>))"
  using assms by (simp add: pthread_defs)

theorem creation_failures_witness:
  "(100::nat) \<noteq> NULL
   \<and> ssh_pthread_mutex_init (libc_ok\<lparr>pthread_mutexattr_init := 1\<rparr>) 100 empty_memory =
       (Exit 1, empty_memory\<lparr>libc_calls := [Pthread_mutexattr_init]\<rparr>)
   \<and> ssh_mutex_init (libc_ok\<lparr>pthread_mutexattr_init := 1\<rparr>) 100 empty_memory =
       (Exit 1, empty_memory\<lparr>libc_calls := [Pthread_mutexattr_init]\<rparr>)
   \<and> ssh_static_mutex_init (libc_ok\<lparr>pthread_mutexattr_init := 1\<rparr>) 100 empty_memory =
       (Exit 1, empty_memory\<lparr>libc_calls := [Pthread_mutexattr_init]\<rparr>)
   \<and> ssh_pthread_mutex_init (libc_ok\<lparr>pthread_mutexattr_settype := 22\<rparr>) 100 empty_memory =
       (Exit 22,
        empty_memory\<lparr>libc_calls := [Pthread_mutexattr_init, Pthread_mutexattr_settype]\<rparr>)
   \<and> ssh_mutex_init (libc_ok\<lparr>pthread_mutexattr_settype := 22\<rparr>) 100 empty_memory =
       (Exit 22,
        empty_memory\<lparr>libc_calls := [Pthread_mutexattr_init, Pthread_mutexattr_settype]\<rparr>)
   \<and> ssh_static_mutex_init (libc_ok\<lparr>pthread_mutexattr_settype := 22\<rparr>) 100 empty_memory =
       (Exit 22,
        empty_memory\<lparr>libc_calls := [Pthread_mutexattr_init, Pthread_mutexattr_settype]\<rparr>)
   \<and> ssh_static_mutex_init (libc_ok\<lparr>pthread_mutex_init := (\<lambda>a. 11)\<rparr>) 100 empty_memory =
       (Exit 11,
        empty_memory\<lparr>libc_calls := [Pthread_mutexattr_init, Pthread_mutexattr_settype,
                                     Pthread_mutex_init 100]\<rparr>)
   \<and> fst (ssh_pthread_mutex_init (libc_ok\<lparr>pthread_mutex_init := (\<lambda>a. 11)\<rparr>) 100
        (store 100 77 empty_memory)) = Return 11
   \<and> load 100 (snd (ssh_pthread_mutex_init (libc_ok\<lparr>pthread_mutex_init := (\<lambda>a. 11)\<rparr>) 100
        (store 100 77 empty_memory))) = NULL
   \<and> allocated (snd (ssh_pthread_mutex_init (libc_ok\<lparr>pthread_mutex_init := (\<lambda>a. 11)\<rparr>) 100
        (store 100 77 empty_memory))) = {}
   \<and> fst (ssh_mutex_init (libc_ok\<lparr>pthread_mutex_init := (\<lambda>a. 11)\<rparr>) 100
        (store 100 77 empty_memory)) = Exit 11
   \<and> libc_calls (snd (ssh_mutex_init (libc_ok\<lparr>pthread_mutex_init := (\<lambda>a. 11)\<rparr>) 100
        (store 100 77 empty_memory))) =
       [Pthread_mutexattr_init, Pthread_mutexattr_settype, Malloc 200,
        Pthread_mutex_init 200, Free 200]"
  using
    creation_failures [of 100 "libc_ok\<lparr>pthread_mutexattr_init := 1\<rparr>" empty_memory]
    creation_failures [of 100 "libc_ok\<lparr>pthread_mutexattr_settype := 22\<rparr>" empty_memory]
    creation_failures [of 100 "libc_ok\<lparr>pthread_mutex_init := (\<lambda>a. 11)\<rparr>" empty_memory]
    creation_failures [of 100 "libc_ok\<lparr>pthread_mutex_init := (\<lambda>a. 11)\<rparr>"
      "store 100 77 empty_memory"]
  by (simp add: libc_ok_def NULL_def empty_memory_def store_def load_def)

text \<open>
  The claim says that no failure of the construction is returned as a status. In
  \<^verbatim>\<open>ssh_pthread_mutex_init\<close> it is: when \<^verbatim>\<open>pthread_mutex_init\<close> returns 11 the function
  returns 11 to its caller.
\<close>

theorem construction_failure_counterexample:
  "fst (ssh_pthread_mutex_init (libc_ok\<lparr>pthread_mutex_init := (\<lambda>a. 11)\<rparr>) 100 empty_memory) =
     Return 11"
  by (simp add: pthread_defs libc_ok_def empty_memory_def NULL_def)

end
